theory Spec2Isabelle
  imports Complex_Main "HOL-Library.Sublist" "HOL-Library.Multiset"
begin

section \<open>Data model\<close>

text \<open>
  One row of the insurance table, with the seven columns both scripts read. Python's
  \<open>int\<close> columns are \<open>int\<close>, the \<open>float\<close> columns are exact reals (comparisons of
  floats are exact; the rounding of float arithmetic is not part of this model), and
  the categorical columns are strings, as the code compares them.
\<close>

record row =
  age :: int
  sex :: string
  bmi :: real
  children :: int
  smoker :: string
  region :: string
  charges :: real

type_synonym dataset = "row list"

section \<open>Bucketizer: the threshold ladders\<close>

text \<open>
  The labels of the source contain U+2013 (en dash). A \<open>string\<close> here is a list of
  bytes, so the dash is its three UTF-8 bytes.
\<close>

definition en_dash :: string where
  "en_dash = [CHR 0xE2, CHR 0x80, CHR 0x93]"

text \<open>\<^verbatim>\<open>def charges_band(val)\<close>: an \<open>if\<close>/\<open>elif\<close> ladder on \<open>val < bound\<close>.\<close>

definition charges_band :: "real \<Rightarrow> string" where
  "charges_band val =
     (if val < 5000 then ''<5,000''
      else if val < 10000 then ''5,000'' @ en_dash @ ''9,999''
      else if val < 20000 then ''10,000'' @ en_dash @ ''19,999''
      else if val < 30000 then ''20,000'' @ en_dash @ ''29,999''
      else if val < 50000 then ''30,000'' @ en_dash @ ''49,999''
      else ''50,000+'')"

text \<open>\<^verbatim>\<open>def bmi_category(val)\<close>.\<close>

definition bmi_category :: "real \<Rightarrow> string" where
  "bmi_category val =
     (if val < 18.5 then ''<18.5''
      else if val < 25 then ''18.5'' @ en_dash @ ''24.9''
      else if val < 30 then ''25'' @ en_dash @ ''29.9''
      else if val < 35 then ''30'' @ en_dash @ ''34.9''
      else ''35+'')"



section \<open>Bucketizer: the batch script\<close>

text \<open>
  What a Python statement can raise here: \<open>FileNotFoundError\<close>, which the dashboard's
  loader catches by name, and every other exception (a parse error, a permission
  error, ...), which only an \<open>except Exception\<close> catches.
\<close>

datatype exn = FileNotFoundError | OtherException



text \<open>
  A row of the written table: the seven columns and the four the script adds. The
  added columns are named \<open>charges_band\<close>, \<open>bmi_category\<close>, \<open>age_group\<close> and
  \<open>age_group_label\<close> in the source; the suffix keeps them apart from the functions.
\<close>

record bucketed_row = row +
  charges_band_col :: string
  bmi_category_col :: string
  age_group_col :: string
  age_group_label_col :: string




text \<open>
  The files the script touches: a path holds a table of the seven columns, a table of
  the eleven columns, or bytes that do not parse; a path that holds nothing is absent.
\<close>

datatype csv = Insurance "row list" | Grouped "bucketed_row list" | Malformed

type_synonym files = "string \<rightharpoonup> csv"



section \<open>Dashboard: the loader\<close>

text \<open>
  The message \<open>load_data\<close> shows: \<^verbatim>\<open>st.success\<close> with the file name, \<^verbatim>\<open>st.warning\<close>, or
  \<^verbatim>\<open>st.error\<close> with the exception.
\<close>

datatype notice = Success string | Warning | Error exn

text \<open>
  The \<^verbatim>\<open>for file in file_options\<close> loop with its inner \<^verbatim>\<open>try\<close>. \<open>Inr (Some (file, df))\<close>
  is the \<^verbatim>\<open>return df\<close> inside the loop, \<open>Inr None\<close> is the loop running out, and
  \<open>Inl e\<close> is an exception other than \<open>FileNotFoundError\<close> leaving the loop. The reader
  \<^verbatim>\<open>pd.read_csv\<close> is a parameter: it stands for the disk.
\<close>

fun try_files :: "(string \<Rightarrow> exn + 'df) \<Rightarrow> string list \<Rightarrow> exn + (string \<times> 'df) option" where
  "try_files reader [] = Inr None"
| "try_files reader (file # files) =
     (case reader file of
        Inr df \<Rightarrow> Inr (Some (file, df))
      | Inl FileNotFoundError \<Rightarrow> try_files reader files
      | Inl e \<Rightarrow> Inl e)"

text \<open>
  The body of \<open>load_data\<close> around the loop: the outer \<^verbatim>\<open>except Exception\<close> returns the
  sample data too. \<open>create_sample_data\<close> is the table the function of that name
  builds (\<^verbatim>\<open>np.random.seed(42)\<close>, \<^verbatim>\<open>n_samples = 1000\<close>); its draws are numpy's, so the
  table is a parameter.
\<close>

definition load_data_from :: "string list \<Rightarrow> (string \<Rightarrow> exn + 'df) \<Rightarrow> 'df \<Rightarrow> notice \<times> 'df" where
  "load_data_from file_options reader create_sample_data =
     (case try_files reader file_options of
        Inr (Some (file, df)) \<Rightarrow> (Success file, df)
      | Inr None \<Rightarrow> (Warning, create_sample_data)
      | Inl e \<Rightarrow> (Error e, create_sample_data))"

definition file_options :: "string list" where
  "file_options = [''insurance_etl_final.csv'', ''insurance_dashboard_ready.csv'',
                   ''insurancedashboard.csv'', ''insurance_clean_final.csv'',
                   ''insurance.csv'']"

definition load_data :: "(string \<Rightarrow> exn + 'df) \<Rightarrow> 'df \<Rightarrow> notice \<times> 'df" where
  "load_data reader create_sample_data =
     load_data_from file_options reader create_sample_data"

section \<open>Dashboard: the sidebar filter\<close>

text \<open>
  The four sidebar controls: two select boxes (strings) and two range sliders (pairs
  \<open>(low, high)\<close>; the code reads them as \<open>age_range[0]\<close>, \<open>age_range[1]\<close>).
\<close>

record filter_criteria =
  smoker_filter :: string
  region_filter :: string
  age_range :: "int \<times> int"
  bmi_range :: "real \<times> real"

text \<open>
  The block \<^verbatim>\<open>filtered_df = df.copy() ...\<close>: a boolean mask on the two ranges, then
  one more mask for each select box that is not \<open>All\<close>. Indexing a frame with a mask
  keeps the rows where the mask holds, in the frame's order.
\<close>

definition apply_filters :: "filter_criteria \<Rightarrow> dataset \<Rightarrow> dataset" where
  "apply_filters c df =
     (let filtered_df = filter (\<lambda>r. age r \<ge> fst (age_range c) \<and>
                                      age r \<le> snd (age_range c) \<and>
                                      bmi r \<ge> fst (bmi_range c) \<and>
                                      bmi r \<le> snd (bmi_range c)) df;
          filtered_df = (if smoker_filter c \<noteq> ''All''
                         then filter (\<lambda>r. smoker r = smoker_filter c) filtered_df
                         else filtered_df);
          filtered_df = (if region_filter c \<noteq> ''All''
                         then filter (\<lambda>r. region r = region_filter c) filtered_df
                         else filtered_df)
      in filtered_df)"

text \<open>The predicate of section 4.2 of the specification, in its words.\<close>

definition passes :: "filter_criteria \<Rightarrow> row \<Rightarrow> bool" where
  "passes c r \<longleftrightarrow>
     fst (age_range c) \<le> age r \<and> age r \<le> snd (age_range c) \<and>
     fst (bmi_range c) \<le> bmi r \<and> bmi r \<le> snd (bmi_range c) \<and>
     (smoker_filter c = ''All'' \<or> smoker r = smoker_filter c) \<and>
     (region_filter c = ''All'' \<or> region r = region_filter c)"

section \<open>Dashboard: the metrics\<close>

text \<open>
  \<^verbatim>\<open>Series.mean()\<close> on exact reals. The code calls it on a series it has checked to be
  non-empty, and twice on a column of the non-empty frame.
\<close>

definition mean :: "real list \<Rightarrow> real" where
  "mean xs = sum_list xs / real (length xs)"

text \<open>The two series \<^verbatim>\<open>filtered_df[filtered_df['smoker'] == ...]['charges']\<close>.\<close>

definition smoker_yes_data :: "dataset \<Rightarrow> real list" where
  "smoker_yes_data filtered_df = map charges (filter (\<lambda>r. smoker r = ''yes'') filtered_df)"

definition smoker_no_data :: "dataset \<Rightarrow> real list" where
  "smoker_no_data filtered_df = map charges (filter (\<lambda>r. smoker r = ''no'') filtered_df)"

text \<open>The block \<^verbatim>\<open>if len(filtered_df) > 0: ... else: smoker_multiplier = 0\<close>.\<close>

definition smoker_multiplier :: "dataset \<Rightarrow> real" where
  "smoker_multiplier filtered_df =
     (if length filtered_df > 0 then
        (let smoker_yes_mean = (if length (smoker_yes_data filtered_df) > 0
                                then mean (smoker_yes_data filtered_df) else 0);
             smoker_no_mean = (if length (smoker_no_data filtered_df) > 0
                               then mean (smoker_no_data filtered_df) else 1)
         in if smoker_no_mean > 0 then smoker_yes_mean / smoker_no_mean else 0)
      else 0)"

text \<open>
  \<^verbatim>\<open>pd.cut(x, bins, labels, include_lowest)\<close> with the default \<^verbatim>\<open>right=True\<close>, as pandas
  computes it: \<open>ids\<close> is the position at which \<open>x\<close> would be inserted left of equal
  edges (the number of edges below \<open>x\<close>, the edges being increasing), a value equal
  to the lowest edge goes to the first bin when \<open>include_lowest\<close>, and a value beyond
  the edges has no bin. So bin \<open>k\<close> is \<open>(bins[k-1], bins[k]]\<close>: closed on the right.
\<close>

definition searchsorted_left :: "int list \<Rightarrow> int \<Rightarrow> nat" where
  "searchsorted_left bins x = length (takeWhile (\<lambda>b. b < x) bins)"

definition pd_cut :: "int list \<Rightarrow> string list \<Rightarrow> bool \<Rightarrow> int \<Rightarrow> string option" where
  "pd_cut bins labels include_lowest x =
     (case bins of
        [] \<Rightarrow> None
      | lowest # _ \<Rightarrow>
          (let ids = searchsorted_left bins x;
               ids = (if include_lowest \<and> x = lowest then 1 else ids)
           in if ids = length bins \<or> ids = 0 then None
              else Some (labels ! (ids - 1))))"

text \<open>The call in the age-group chart, with its literal bins and labels.\<close>

definition age_bins :: "int list" where
  "age_bins = [17, 30, 40, 50, 65]"

definition age_labels :: "string list" where
  "age_labels = [''18-29'', ''30-39'', ''40-49'', ''50+'']"

definition dashboard_age_group :: "int \<Rightarrow> string option" where
  "dashboard_age_group a = pd_cut age_bins age_labels True a"

text \<open>
  \<^verbatim>\<open>groupby('age_group', observed=True)['charges'].mean()\<close>: one entry per label that
  some row carries, in the labels' order, with the mean charges of those rows.
\<close>

definition age_group_avg :: "dataset \<Rightarrow> (string \<times> real) list" where
  "age_group_avg filtered_df =
     concat (map (\<lambda>l. let cs = map charges
                               (filter (\<lambda>r. dashboard_age_group (age r) = Some l) filtered_df)
                       in if cs = [] then [] else [(l, mean cs)])
                 age_labels)"

section \<open>Dashboard: the premium calculator\<close>





section \<open>Concrete inputs\<close>

text \<open>Three rows used as concrete inputs below.\<close>

definition row_a :: row where
  "row_a = \<lparr>age = 30, sex = ''male'', bmi = 27.5, children = 1, smoker = ''no'',
            region = ''southwest'', charges = 4000\<rparr>"

definition row_b :: row where
  "row_b = \<lparr>age = 45, sex = ''female'', bmi = 31, children = 0, smoker = ''yes'',
            region = ''southeast'', charges = 40000\<rparr>"

definition row_c :: row where
  "row_c = \<lparr>age = 62, sex = ''female'', bmi = 22, children = 2, smoker = ''no'',
            region = ''southeast'', charges = 12000\<rparr>"

definition crit_no_se :: filter_criteria where
  "crit_no_se = \<lparr>smoker_filter = ''All'', region_filter = ''southeast'',
                 age_range = (18, 64), bmi_range = (15, 50)\<rparr>"

text \<open>A row with a given smoker flag and charges.\<close>

definition smoker_row :: "string \<Rightarrow> real \<Rightarrow> row" where
  "smoker_row s c = \<lparr>age = 40, sex = ''male'', bmi = 25, children = 0, smoker = s,
                     region = ''southwest'', charges = c\<rparr>"

text \<open>
  Two disks for the loader: on one the first candidate exists and does not parse while
  the last one holds a table; on the other only the last candidate exists.
\<close>

definition disk_malformed_first :: "string \<Rightarrow> exn + dataset" where
  "disk_malformed_first file =
     (if file = ''insurance_etl_final.csv'' then Inl OtherException
      else if file = ''insurance.csv'' then Inr [row_a]
      else Inl FileNotFoundError)"

definition disk_last_only :: "string \<Rightarrow> exn + dataset" where
  "disk_last_only file =
     (if file = ''insurance.csv'' then Inr [row_a] else Inl FileNotFoundError)"



section \<open>Bucketizer: brackets of the two real-valued ladders\<close>

text \<open>
  C6. For every real \<open>x\<close>, \<open>charges_band x\<close> and \<open>bmi_category x\<close> are the labels of the
  threshold tables: below the first bound the first label, in each bracket \<open>[lo, hi)\<close>
  (lower edge included, upper edge excluded) that bracket's label, from the last bound
  on the last label. At the boundary points: \<open>charges_band 4999.99\<close> is \<open><5,000\<close>,
  \<open>charges_band 5000\<close> is \<open>5,000-9,999\<close>, \<open>bmi_category 29.9\<close> is \<open>25-29.9\<close> and
  \<open>bmi_category 30\<close> is \<open>30-34.9\<close> (each dash the en dash).
\<close>

theorem bucket_ladders_brackets:
  "(x < 5000 \<longrightarrow> charges_band x = ''<5,000'') \<and>
   (5000 \<le> x \<and> x < 10000 \<longrightarrow> charges_band x = ''5,000'' @ en_dash @ ''9,999'') \<and>
   (10000 \<le> x \<and> x < 20000 \<longrightarrow> charges_band x = ''10,000'' @ en_dash @ ''19,999'') \<and>
   (20000 \<le> x \<and> x < 30000 \<longrightarrow> charges_band x = ''20,000'' @ en_dash @ ''29,999'') \<and>
   (30000 \<le> x \<and> x < 50000 \<longrightarrow> charges_band x = ''30,000'' @ en_dash @ ''49,999'') \<and>
   (50000 \<le> x \<longrightarrow> charges_band x = ''50,000+'') \<and>
   (x < 18.5 \<longrightarrow> bmi_category x = ''<18.5'') \<and>
   (18.5 \<le> x \<and> x < 25 \<longrightarrow> bmi_category x = ''18.5'' @ en_dash @ ''24.9'') \<and>
   (25 \<le> x \<and> x < 30 \<longrightarrow> bmi_category x = ''25'' @ en_dash @ ''29.9'') \<and>
   (30 \<le> x \<and> x < 35 \<longrightarrow> bmi_category x = ''30'' @ en_dash @ ''34.9'') \<and>
   (35 \<le> x \<longrightarrow> bmi_category x = ''35+'') \<and>
   charges_band 4999.99 = ''<5,000'' \<and>
   charges_band 5000 = ''5,000'' @ en_dash @ ''9,999'' \<and>
   bmi_category 29.9 = ''25'' @ en_dash @ ''29.9'' \<and>
   bmi_category 30 = ''30'' @ en_dash @ ''34.9''"
  by (simp add: charges_band_def bmi_category_def)

theorem bucket_ladders_brackets_witness:
  "charges_band 12345.67 = ''10,000'' @ en_dash @ ''19,999'' \<and>
   bmi_category 12345.67 = ''35+'' \<and>
   charges_band 4999.99 \<noteq> charges_band 5000"
  using bucket_ladders_brackets [of "12345.67"]
  by (simp add: en_dash_def)

section \<open>Dashboard: properties of the filter\<close>

lemma apply_filters_eq_filter: "apply_filters c df = filter (passes c) df"
  by (auto simp: apply_filters_def passes_def Let_def intro: filter_cong)

text \<open>
  C1. A record is in the filtered result if and only if it is a record of the dataset,
  its age lies in \<open>[age_lo, age_hi]\<close>, its bmi lies in \<open>[bmi_lo, bmi_hi]\<close> (all four
  bounds inclusive), the smoker criterion is \<open>All\<close> or equals the record's smoker
  field, and the region criterion is \<open>All\<close> or equals the record's region field.
\<close>

theorem filter_membership:
  "r \<in> set (apply_filters c df) \<longleftrightarrow>
     r \<in> set df \<and>
     fst (age_range c) \<le> age r \<and> age r \<le> snd (age_range c) \<and>
     fst (bmi_range c) \<le> bmi r \<and> bmi r \<le> snd (bmi_range c) \<and>
     (smoker_filter c = ''All'' \<or> smoker r = smoker_filter c) \<and>
     (region_filter c = ''All'' \<or> region r = region_filter c)"
  by (simp add: apply_filters_eq_filter passes_def)

theorem filter_membership_witness:
  "row_b \<in> set (apply_filters crit_no_se [row_a, row_b, row_c]) \<and>
   row_a \<notin> set (apply_filters crit_no_se [row_a, row_b, row_c])"
  using filter_membership [of row_b crit_no_se "[row_a, row_b, row_c]"]
    filter_membership [of row_a crit_no_se "[row_a, row_b, row_c]"]
  by (simp add: row_a_def row_b_def row_c_def crit_no_se_def)

text \<open>
  C9. Filtering is idempotent: filtering the filtered dataset again with the same
  criteria gives the filtered dataset.
\<close>

theorem filter_idempotent:
  "apply_filters c (apply_filters c d) = apply_filters c d"
  by (simp add: apply_filters_eq_filter)

theorem filter_idempotent_witness:
  "apply_filters crit_no_se (apply_filters crit_no_se [row_a, row_b, row_c]) = [row_b, row_c]"
  using filter_idempotent [of crit_no_se "[row_a, row_b, row_c]"]
  by (simp add: apply_filters_eq_filter passes_def row_a_def row_b_def row_c_def crit_no_se_def)

text \<open>
  C10. The filtered result is an order-preserving subsequence of the dataset: it is the
  dataset with some rows left out (so every row of it is a row of the dataset, in the
  dataset's relative order), and no row occurs in it more often than in the dataset.
\<close>

theorem filter_subsequence:
  "subseq (apply_filters c d) d \<and>
   set (apply_filters c d) \<subseteq> set d \<and>
   mset (apply_filters c d) \<subseteq># mset d"
  by (simp add: apply_filters_eq_filter)

theorem filter_subsequence_witness:
  "subseq [row_b, row_c] [row_a, row_b, row_c] \<and>
   apply_filters crit_no_se [row_a, row_b, row_c] = [row_b, row_c]"
  using filter_subsequence [of crit_no_se "[row_a, row_b, row_c]"]
  by (simp add: apply_filters_eq_filter passes_def row_a_def row_b_def row_c_def crit_no_se_def)

section \<open>Bucketizer: the written table\<close>






section \<open>Dashboard: what the loader returns\<close>

lemma try_files_absent:
  "\<forall>g \<in> set pre. reader g = Inl FileNotFoundError \<Longrightarrow>
   try_files reader (pre @ rest) = try_files reader rest"
  by (induction pre) auto

text \<open>
  C7, as the code has it. The candidates are tried in order, and a candidate is passed
  over only when it is absent (\<open>FileNotFoundError\<close>). When every candidate is absent the
  loader returns the sample data, with a warning. When the first candidate that is not
  absent parses, the loader returns its table. When the first candidate that is not
  absent fails in any other way, the loader returns the sample data, with the error
  shown, and reads no later candidate. In each case the loader returns a table.
\<close>

theorem load_data_order:
  "((\<forall>g \<in> set files. reader g = Inl FileNotFoundError) \<longrightarrow>
      load_data_from files reader sample = (Warning, sample)) \<and>
   ((\<forall>g \<in> set pre. reader g = Inl FileNotFoundError) \<and> reader f = Inr df \<longrightarrow>
      load_data_from (pre @ f # post) reader sample = (Success f, df)) \<and>
   ((\<forall>g \<in> set pre. reader g = Inl FileNotFoundError) \<and> reader f = Inl OtherException \<longrightarrow>
      load_data_from (pre @ f # post) reader sample = (Error OtherException, sample))"
proof (intro conjI impI)
  assume "\<forall>g \<in> set files. reader g = Inl FileNotFoundError"
  then have "try_files reader (files @ []) = try_files reader []"
    by (rule try_files_absent)
  then show "load_data_from files reader sample = (Warning, sample)"
    by (simp add: load_data_from_def)
next
  assume a: "(\<forall>g \<in> set pre. reader g = Inl FileNotFoundError) \<and> reader f = Inr df"
  then have "try_files reader (pre @ f # post) = try_files reader (f # post)"
    by (intro try_files_absent) simp
  with a show "load_data_from (pre @ f # post) reader sample = (Success f, df)"
    by (simp add: load_data_from_def)
next
  assume a: "(\<forall>g \<in> set pre. reader g = Inl FileNotFoundError) \<and> reader f = Inl OtherException"
  then have "try_files reader (pre @ f # post) = try_files reader (f # post)"
    by (intro try_files_absent) simp
  with a show "load_data_from (pre @ f # post) reader sample = (Error OtherException, sample)"
    by (simp add: load_data_from_def)
qed

theorem load_data_order_witness:
  "load_data disk_last_only [] = (Success ''insurance.csv'', [row_a]) \<and>
   load_data disk_malformed_first [] = (Error OtherException, []) \<and>
   load_data (\<lambda>f. Inl FileNotFoundError) ([] :: dataset) = (Warning, [])"
proof -
  have split: "file_options =
      [''insurance_etl_final.csv'', ''insurance_dashboard_ready.csv'',
       ''insurancedashboard.csv'', ''insurance_clean_final.csv''] @ ''insurance.csv'' # []"
    by (simp add: file_options_def)
  have split0: "file_options =
      [] @ ''insurance_etl_final.csv'' # [''insurance_dashboard_ready.csv'',
       ''insurancedashboard.csv'', ''insurance_clean_final.csv'', ''insurance.csv'']"
    by (simp add: file_options_def)
  have 1: "load_data disk_last_only [] = (Success ''insurance.csv'', [row_a])"
    unfolding load_data_def split
    by (rule load_data_order [THEN conjunct2, THEN conjunct1, rule_format])
       (simp add: disk_last_only_def)
  have 2: "load_data disk_malformed_first [] = (Error OtherException, [])"
    unfolding load_data_def split0
    by (rule load_data_order [THEN conjunct2, THEN conjunct2, rule_format])
       (simp add: disk_malformed_first_def)
  have 3: "load_data (\<lambda>f. Inl FileNotFoundError) ([] :: dataset) = (Warning, [])"
    unfolding load_data_def
    by (rule load_data_order [THEN conjunct1, rule_format]) simp
  from 1 2 3 show ?thesis by simp
qed

text \<open>
  The claim as first stated (the first candidate that parses is returned, and the
  sample data only when all fail) does not hold: with the first candidate malformed
  and the last one a good table, the loader returns the sample data (here the empty
  table), not the good table.
\<close>

theorem load_data_malformed_first_counterexample:
  "disk_malformed_first ''insurance_etl_final.csv'' = Inl OtherException \<and>
   disk_malformed_first ''insurance.csv'' = Inr [row_a] \<and>
   snd (load_data disk_malformed_first []) = [] \<and>
   snd (load_data disk_malformed_first []) \<noteq> [row_a]"
  by (simp add: load_data_def load_data_from_def file_options_def disk_malformed_first_def)

section \<open>Dashboard: the smoking multiplier\<close>

lemma smoker_data_nonempty:
  "smoker_yes_data d \<noteq> [] \<or> smoker_no_data d \<noteq> [] \<Longrightarrow> d \<noteq> []"
  by (auto simp: smoker_yes_data_def smoker_no_data_def)

text \<open>
  C2, as the code has it. On the empty filtered set the multiplier is 0. With smoker
  and non-smoker rows and a positive non-smoker mean it is the mean charges of the
  smoker rows divided by the mean charges of the non-smoker rows. When the non-smoker
  mean is zero or negative it is 0: the code divides only by a positive denominator.
  With smoker rows and no non-smoker row the denominator is 1. With no smoker row the
  numerator is 0 and so is the multiplier, on every all-non-smoker set in particular.
\<close>

theorem smoker_multiplier_cases:
  "(d = [] \<longrightarrow> smoker_multiplier d = 0) \<and>
   (smoker_yes_data d \<noteq> [] \<and> smoker_no_data d \<noteq> [] \<and> mean (smoker_no_data d) > 0 \<longrightarrow>
      smoker_multiplier d = mean (smoker_yes_data d) / mean (smoker_no_data d) \<and>
      smoker_multiplier d * mean (smoker_no_data d) = mean (smoker_yes_data d)) \<and>
   (smoker_no_data d \<noteq> [] \<and> mean (smoker_no_data d) \<le> 0 \<longrightarrow> smoker_multiplier d = 0) \<and>
   (smoker_yes_data d \<noteq> [] \<and> smoker_no_data d = [] \<longrightarrow>
      smoker_multiplier d = mean (smoker_yes_data d) / 1) \<and>
   (smoker_yes_data d = [] \<longrightarrow> smoker_multiplier d = 0)"
  using smoker_data_nonempty [of d]
  by (auto simp: smoker_multiplier_def Let_def)

theorem smoker_multiplier_cases_witness:
  "smoker_multiplier
     [smoker_row ''yes'' 30000, smoker_row ''no'' 8000, smoker_row ''no'' 12000] = 3 \<and>
   smoker_multiplier [smoker_row ''yes'' 30000] = 30000 \<and>
   smoker_multiplier [smoker_row ''no'' 8000] = 0 \<and>
   smoker_multiplier [] = 0"
  using smoker_multiplier_cases
      [of "[smoker_row ''yes'' 30000, smoker_row ''no'' 8000, smoker_row ''no'' 12000]"]
    smoker_multiplier_cases [of "[smoker_row ''yes'' 30000]"]
    smoker_multiplier_cases [of "[smoker_row ''no'' 8000]"]
    smoker_multiplier_cases [of "[]"]
  by (simp add: smoker_yes_data_def smoker_no_data_def mean_def smoker_row_def)

text \<open>
  The multiplier is not always the quotient of the two means. With one smoker at
  charges 100 and one non-smoker at charges 0 the non-smoker mean is 0, no quotient
  exists, and the code returns 0, which times the non-smoker mean is not the smoker
  mean. With the non-smoker at charges -50 the quotient of the means is -2 and the
  code returns 0.
\<close>

theorem smoker_multiplier_guard_counterexample:
  "mean (smoker_yes_data [smoker_row ''yes'' 100, smoker_row ''no'' 0]) = 100 \<and>
   mean (smoker_no_data [smoker_row ''yes'' 100, smoker_row ''no'' 0]) = 0 \<and>
   smoker_multiplier [smoker_row ''yes'' 100, smoker_row ''no'' 0] = 0 \<and>
   smoker_multiplier [smoker_row ''yes'' 100, smoker_row ''no'' 0]
     * mean (smoker_no_data [smoker_row ''yes'' 100, smoker_row ''no'' 0])
     \<noteq> mean (smoker_yes_data [smoker_row ''yes'' 100, smoker_row ''no'' 0]) \<and>
   mean (smoker_yes_data [smoker_row ''yes'' 100, smoker_row ''no'' (-50)])
     / mean (smoker_no_data [smoker_row ''yes'' 100, smoker_row ''no'' (-50)]) = - 2 \<and>
   smoker_multiplier [smoker_row ''yes'' 100, smoker_row ''no'' (-50)] = 0"
  by (simp add: smoker_multiplier_def smoker_yes_data_def smoker_no_data_def mean_def
      smoker_row_def)

section \<open>Dashboard: the age groups of the chart\<close>

lemma dashboard_age_group_bins:
  "dashboard_age_group a =
     (if 17 \<le> a \<and> a \<le> 30 then Some ''18-29''
      else if 30 < a \<and> a \<le> 40 then Some ''30-39''
      else if 40 < a \<and> a \<le> 50 then Some ''40-49''
      else if 50 < a \<and> a \<le> 65 then Some ''50+''
      else None)"
  by (simp add: dashboard_age_group_def pd_cut_def age_bins_def age_labels_def
      searchsorted_left_def Let_def)

text \<open>
  C3 at the age 30. The claim puts a record of age 30 in the bin \<open>[30,40)\<close>, the one
  the code labels \<open>30-39\<close>. The code's bins are closed on the right, so it puts the
  record in the bin labelled \<open>18-29\<close>, and the chart averages its charges there: of a
  row of age 30 (charges 4000) and a row of age 45 (charges 40000), the first bar is
  \<open>18-29\<close> at 4000 and there is no bar \<open>30-39\<close>.
\<close>

theorem age_thirty_in_first_bin:
  "dashboard_age_group 30 = Some ''18-29'' \<and>
   dashboard_age_group 40 = Some ''30-39'' \<and>
   dashboard_age_group 50 = Some ''40-49'' \<and>
   age_group_avg [row_a, row_b] = [(''18-29'', 4000), (''40-49'', 40000)]"
  by (simp add: age_group_avg_def dashboard_age_group_bins age_labels_def row_a_def row_b_def
      mean_def)

section \<open>Dashboard: the premium\<close>






end
